theory Spec2Isabelle
  imports Main "HOL-Library.Char_ord" "HOL-Library.List_Lexorder" "HOL-Library.AList"
begin

section \<open>Publishing pipeline of the open-data repository (publish.py)\<close>

subsection \<open>Errors and paths\<close>

text \<open>
  Every exception the modelled code can raise is a value of this type. A \<open>StopIteration\<close>
  is what \<open>next(fd)\<close> raises on an empty file, a \<open>ValueError\<close> is the failed unpacking
  of \<open>key, data = line.split(",", 1)\<close> on a line without a comma, an
  \<open>AttributeError\<close> is a method call on \<open>None\<close>, an \<open>OperationalError\<close> is a
  statement that the relational store rejects.
\<close>

datatype error =
    StopIteration
  | ValueError
  | AttributeError
  | AssertionError
  | KeyError
  | FileNotFoundError
  | OperationalError

text \<open>
  A \<open>pathlib.Path\<close> is the list of its components; \<open>folder / name\<close> appends one
  component. Location keys and table names are used as single directory and file names.
\<close>

type_synonym path = "string list"

definition pjoin :: "path \<Rightarrow> string \<Rightarrow> path" where
  "pjoin folder name = folder @ [name]"

subsection \<open>The key partitioner: \<open>_subset_grouped_key\<close>\<close>

text \<open>
  The input file is the list of its lines as Python's file iteration gives them (each line
  with its line terminator). \<open>lib.io.read_lines\<close> is not among the sources: what it
  skips with \<open>skip_empty=True\<close> is the parameter \<open>blank\<close>.
\<close>

definition read_lines :: "(string \<Rightarrow> bool) \<Rightarrow> string list \<Rightarrow> string list" where
  "read_lines blank fd = filter (\<lambda>line. \<not> blank line) fd"

text \<open>\<open>line.split(",", 1)\<close> unpacked into two names: the text before the first comma and
  the text after it; \<open>None\<close> when the line has no comma (the unpacking raises).\<close>

fun split_comma :: "string \<Rightarrow> (string \<times> string) option" where
  "split_comma [] = None"
| "split_comma (c # cs) =
     (if c = CHR '','' then Some ([], cs)
      else (case split_comma cs of
              None \<Rightarrow> None
            | Some (key, data) \<Rightarrow> Some (c # key, data)))"

text \<open>The first sweep, which collects the set of keys for the progress bar.\<close>

fun collect_keys :: "string list \<Rightarrow> string set \<Rightarrow> error + string set" where
  "collect_keys [] key_set = Inr key_set"
| "collect_keys (line # rest) key_set =
     (case split_comma line of
        None \<Rightarrow> Inl ValueError
      | Some (key, data) \<Rightarrow> collect_keys rest (insert key key_set))"

text \<open>
  The state of the second sweep: the three local variables, the files written so far
  (each file is the list of the strings written to it; opening with mode \<open>"w"\<close>
  truncates) and the paths yielded so far.
\<close>

record sweep_state =
  key_folder :: "path option"
  current_key :: "string option"
  file_handle :: "path option"
  files :: "path \<rightharpoonup> string list"
  yielded :: "path list"

definition initial_state :: sweep_state where
  "initial_state =
     \<lparr>key_folder = None, current_key = None, file_handle = None,
      files = Map.empty, yielded = []\<rparr>"

text \<open>The body of \<open>if current_key != key\<close>.\<close>

definition switch_key :: "path \<Rightarrow> string \<Rightarrow> string \<Rightarrow> sweep_state \<Rightarrow> sweep_state" where
  "switch_key output_folder header key st =
     (if current_key st \<noteq> Some key then
        st\<lparr>yielded :=
             (case key_folder st of
                None \<Rightarrow> yielded st
              | Some folder \<Rightarrow> yielded st @ [pjoin folder ''main.csv'']),
           current_key := Some key,
           key_folder := Some (pjoin output_folder key),
           file_handle := Some (pjoin (pjoin output_folder key) ''main.csv''),
           files := (files st)(pjoin (pjoin output_folder key) ''main.csv'' \<mapsto> [header])\<rparr>
      else st)"

text \<open>\<open>file_handle.write(f"{key},{data}")\<close>; on \<open>None\<close> the call raises.\<close>

definition write_row :: "string \<Rightarrow> string \<Rightarrow> sweep_state \<Rightarrow> error + sweep_state" where
  "write_row key data st =
     (case file_handle st of
        None \<Rightarrow> Inl AttributeError
      | Some p \<Rightarrow>
          Inr (st\<lparr>files := (files st)(p \<mapsto> (case files st p of None \<Rightarrow> [] | Some ws \<Rightarrow> ws)
                                              @ [key @ '','' @ data])\<rparr>))"

text \<open>The loop over the data lines (index 1 and later). An exception leaves the files and
  the yielded paths as they were when it was raised.\<close>

fun sweep :: "path \<Rightarrow> string \<Rightarrow> sweep_state \<Rightarrow> string list \<Rightarrow> error option \<times> sweep_state" where
  "sweep output_folder header st [] = (None, st)"
| "sweep output_folder header st (line # rest) =
     (case split_comma line of
        None \<Rightarrow> (Some ValueError, st)
      | Some (key, data) \<Rightarrow>
          (case write_row key data (switch_key output_folder header key st) of
             Inl e \<Rightarrow> (Some e, switch_key output_folder header key st)
           | Inr st' \<Rightarrow> sweep output_folder header st' rest))"

text \<open>The result of running the generator to its end: what is on disk, what was yielded,
  and the exception that ended it, if any.\<close>

record partition_result =
  written :: "path \<rightharpoonup> string list"
  paths :: "path list"
  raised :: "error option"

definition finish :: "error option \<Rightarrow> sweep_state \<Rightarrow> partition_result" where
  "finish e st = \<lparr>written = files st, paths = yielded st, raised = e\<rparr>"

definition subset_grouped_key ::
  "(string \<Rightarrow> bool) \<Rightarrow> string list \<Rightarrow> path \<Rightarrow> partition_result" where
  "subset_grouped_key blank fd output_folder =
     (case fd of
        [] \<Rightarrow> finish (Some StopIteration) initial_state
      | header # _ \<Rightarrow>
          (case collect_keys (read_lines blank fd) {} of
             Inl e \<Rightarrow> finish (Some e) initial_state
           | Inr key_set \<Rightarrow>
               (case read_lines blank fd of
                  [] \<Rightarrow> finish (Some AttributeError) initial_state
                | first # data_lines \<Rightarrow>
                    (case split_comma first of
                       None \<Rightarrow> finish (Some ValueError) initial_state
                     | Some _ \<Rightarrow>
                         (case sweep output_folder header initial_state data_lines of
                            (Some e, st) \<Rightarrow> finish (Some e) st
                          | (None, st) \<Rightarrow>
                              (case file_handle st of
                                 None \<Rightarrow> finish (Some AttributeError) st
                               | Some _ \<Rightarrow> finish None st))))))"


definition has_comma :: "string \<Rightarrow> bool" where
  "has_comma line = (CHR '','' \<in> set line)"

text \<open>The data rows of the input: its non-blank lines after the first.\<close>

definition data_rows :: "(string \<Rightarrow> bool) \<Rightarrow> string list \<Rightarrow> string list" where
  "data_rows blank fd = tl (read_lines blank fd)"




text \<open>A small main table (with an empty line before the last row) and a header-only table.\<close>

definition newline :: string where
  "newline = [CHR 0x0A]"

definition example_blank :: "string \<Rightarrow> bool" where
  "example_blank line = (line = [] \<or> line = newline)"


definition example_header_only :: "string list" where
  "example_header_only = [''key,date,new_confirmed'' @ newline]"

subsection \<open>The mirror converter: \<open>convert_tables_to_json\<close>\<close>



text \<open>The logger: the list of the entries logged so far, each a level and a message.\<close>

datatype level = Debug | Info | Error










subsection \<open>Tables and the table algebra\<close>

text \<open>
  A table is its header, the ordered list of the column names, and its data records, each
  the list of its cells. A null value is the empty cell, as the CSV writer writes it.
\<close>

record table =
  columns :: "string list"
  records :: "string list list"

definition null_value :: string where
  "null_value = []"

text \<open>The position of the first column of a name (the length of the header when there is
  none), the cell at a position and the value of a record in a named column; a record has
  the null value in a column it does not have.\<close>

fun index_of :: "string list \<Rightarrow> string \<Rightarrow> nat" where
  "index_of [] name = 0"
| "index_of (c # cs) name = (if c = name then 0 else Suc (index_of cs name))"

definition cell :: "string list \<Rightarrow> nat \<Rightarrow> string" where
  "cell r i = (if i < length r then r ! i else null_value)"

definition value_of :: "string list \<Rightarrow> string list \<Rightarrow> string \<Rightarrow> string" where
  "value_of header_row r name =
     (if name \<in> set header_row then cell r (index_of header_row name) else null_value)"

text \<open>
  The operations of \<open>lib.memory_efficient\<close> are not among the sources. Each of the
  following definitions is modelled from the specification, which gives the contract of the
  operation.
\<close>




text \<open>
  Modelled from the spec: \<open>table_join\<close> is missing; \<open>join(A, B, on, how)\<close> with
  \<open>how="outer"\<close> is the streaming left outer join: the right table is indexed by the
  values of the columns \<open>on\<close> (a later record replaces an earlier one of the same key),
  every record of the left table is kept, once and in its place, and is extended by the
  other columns of the right record of its key, or by null values when there is none. The
  join asserts that both tables have the columns \<open>on\<close>.
\<close>

definition data_columns :: "string list \<Rightarrow> table \<Rightarrow> string list" where
  "data_columns on t = filter (\<lambda>name. name \<notin> set on) (columns t)"

definition records_right :: "string list \<Rightarrow> table \<Rightarrow> string list \<rightharpoonup> string list" where
  "records_right on t =
     map_of (rev (map (\<lambda>r. (map (value_of (columns t) r) on,
                             map (value_of (columns t) r) (data_columns on t)))
                   (records t)))"

definition data_right :: "string list \<Rightarrow> table \<Rightarrow> string list \<Rightarrow> string list" where
  "data_right on t join_key =
     (case records_right on t join_key of
        None \<Rightarrow> replicate (length (data_columns on t)) null_value
      | Some values \<Rightarrow> values)"







subsection \<open>The double-buffered builder: \<open>make_main_table_v3\<close>\<close>

text \<open>
  A tables folder is the list of its CSV files in the order in which \<open>glob("*.csv")\<close>
  gives them, each with its stem. The date list is \<open>date_range("2020-01-01", max_date)\<close>
  for the \<open>max_date\<close> of the day of the run: \<open>lib.time.date_range\<close> is not among the
  sources and the clock is an input, so the list is a parameter.
\<close>

type_synonym folder = "(string \<times> table) list"




text \<open>An example: the index, a dated table and a static table.\<close>

definition example_index :: table where
  "example_index =
     \<lparr>columns = [''location_key'', ''country_name''],
      records = [[''AD'', ''Andorra''], [''US_FL_12001'', ''United States'']]\<rparr>"





text \<open>
  The loops of the builders all join the tables of a list, one after the other, onto the
  table built so far: on the key column and the date for a dated table, on the key column
  alone for a static one. The result has a closed form: every record of the initial table,
  extended by the data that each table holds for the key and date of the record.
\<close>

definition join_on :: "string \<Rightarrow> table \<Rightarrow> string list" where
  "join_on key_column t =
     (if ''date'' \<in> set (columns t) then [key_column, ''date''] else [key_column])"



definition table_data :: "string \<Rightarrow> table \<Rightarrow> string list \<Rightarrow> string list" where
  "table_data key_column t b =
     data_right (join_on key_column t) t
       (map (value_of [key_column, ''date''] b) (join_on key_column t))"







subsection \<open>The direct streaming builder: \<open>make_main_table\<close>\<close>











subsection \<open>The relational builder: \<open>make_main_table_sqlite\<close>\<close>









text \<open>A folder whose first static table has no record for one of the keys of the index, and
  a folder whose index has a key that is a prefix of another key, followed by a space.\<close>

definition example_population_AD :: table where
  "example_population_AD =
     \<lparr>columns = [''location_key'', ''population''], records = [[''AD'', ''77265'']]\<rparr>"

definition example_folder_first_static :: folder where
  "example_folder_first_static =
     [(''population'', example_population_AD), (''index'', example_index)]"





section \<open>Verified properties\<close>

subsection \<open>Properties of the key partitioner\<close>

lemma split_comma_None: "(split_comma line = None) = (\<not> has_comma line)"
proof (induction line)
  case Nil
  show ?case by (simp add: has_comma_def)
next
  case (Cons c cs)
  then show ?case by (cases "split_comma cs") (auto simp: has_comma_def)
qed






lemma collect_keys_fail:
  "\<exists>line\<in>set ls. \<not> has_comma line \<Longrightarrow> collect_keys ls S = Inl ValueError"
proof (induction ls arbitrary: S)
  case Nil
  then show ?case by simp
next
  case (Cons l ls)
  show ?case
  proof (cases "split_comma l")
    case None
    then show ?thesis by simp
  next
    case (Some kd)
    then have "has_comma l" using split_comma_None [of l] by simp
    with Cons.prems have "\<exists>line\<in>set ls. \<not> has_comma line" by auto
    with Cons.IH Some show ?thesis by (cases kd) simp
  qed
qed













text \<open>
  Claim C9. On an input without a data row after the header the partitioner does not return
  normally: it raises, having created no file and yielded no path. When the input is not
  empty and its non-blank lines have a comma, the exception is the \<open>AttributeError\<close> of
  \<open>file_handle.close()\<close> on the handle that was never opened.
\<close>

theorem partitioner_header_only:
  assumes "data_rows blank fd = []"
  shows "raised (subset_grouped_key blank fd out) \<noteq> None
    \<and> written (subset_grouped_key blank fd out) = Map.empty
    \<and> paths (subset_grouped_key blank fd out) = []
    \<and> (fd \<noteq> [] \<and> (\<forall>l\<in>set (read_lines blank fd). has_comma l) \<longrightarrow>
         raised (subset_grouped_key blank fd out) = Some AttributeError)"
proof (cases fd)
  case Nil
  then show ?thesis by (simp add: subset_grouped_key_def finish_def initial_state_def)
next
  case (Cons header rest)
  show ?thesis
  proof (cases "read_lines blank fd")
    case Nil
    then show ?thesis
      by (simp add: subset_grouped_key_def Cons finish_def initial_state_def)
  next
    case rl: (Cons first others)
    with assms have rl1: "read_lines blank fd = [first]" by (simp add: data_rows_def)
    show ?thesis
    proof (cases "split_comma first")
      case None
      then have "\<not> has_comma first" using split_comma_None [of first] by simp
      then show ?thesis
        by (simp add: subset_grouped_key_def Cons rl1 [unfolded Cons] None finish_def initial_state_def)
    next
      case (Some kd)
      then show ?thesis
        by (cases kd)
           (simp add: subset_grouped_key_def Cons rl1 [unfolded Cons] finish_def initial_state_def)
    qed
  qed
qed

theorem partitioner_header_only_witness:
  "data_rows example_blank example_header_only = []
   \<and> raised (subset_grouped_key example_blank example_header_only [''v2'']) = Some AttributeError
   \<and> written (subset_grouped_key example_blank example_header_only [''v2'']) = Map.empty"
proof -
  have h: "data_rows example_blank example_header_only = []"
    by (simp add: data_rows_def read_lines_def example_header_only_def example_blank_def newline_def)
  have c: "example_header_only \<noteq> [] \<and>
      (\<forall>l\<in>set (read_lines example_blank example_header_only). has_comma l)"
    by (simp add: read_lines_def example_header_only_def example_blank_def newline_def has_comma_def)
  from partitioner_header_only [OF h, of "[''v2'']"] c h show ?thesis by simp
qed

subsection \<open>Properties of the mirror converter\<close>




subsection \<open>The closed form of the iterated join\<close>




lemma length_data_right: "length (data_right on t jk) = length (data_columns on t)"
proof (cases "records_right on t jk")
  case None
  then show ?thesis by (simp add: data_right_def)
next
  case (Some vs)
  then have "(jk, vs) \<in> set (rev (map (\<lambda>r. (map (value_of (columns t) r) on,
                             map (value_of (columns t) r) (data_columns on t))) (records t)))"
    unfolding records_right_def by (rule map_of_SomeD)
  then have "length vs = length (data_columns on t)" by auto
  with Some show ?thesis by (simp add: data_right_def)
qed











subsection \<open>Keys and dates of the records of the joined table\<close>





















subsection \<open>Properties of the direct streaming builder\<close>







lemma length_table_data:
  "length (table_data key_column t b) = length (data_columns (join_on key_column t) t)"
  by (simp add: table_data_def length_data_right)








subsection \<open>The order of the records of the main table\<close>












end
